theory Spec2Isabelle
  imports Complex_Main
begin

section \<open>Single-variant association scan (\<open>limix/qtl/_st_scan.py\<close>)\<close>

text \<open>
  A shallow embedding of \<open>st_scan\<close>, \<open>_perform_lmm\<close> and \<open>_perform_glmm\<close>.
  The numerical collaborators (dataset conformance, spectral factorisation, the
  mixed-model fits and the fast scanner) are parameters of the model; every call to
  one of them is recorded in a trace, so that statements about the order and the
  number of such calls can be made. Exceptions are values of a sum type.
\<close>

subsection \<open>Values, arrays and errors\<close>

text \<open>An array entry is a finite number or one of the three non-finite floats.\<close>

datatype num = Fin real | NaN | PosInf | NegInf

type_synonym vec = "num list"
type_synonym matrix = "num list list"

text \<open>A labelled array (rows of values, labels of the second axis).\<close>

record data_array =
  da_values :: matrix
  da_labels :: "string list"

text \<open>What a caller can put into \<open>lik\<close>: a name, an array (the trial counts) or anything else.\<close>

datatype pyval = PStr string | PArr vec | PNone

datatype lik_arg = Bare pyval | Tuple "pyval list" | PyList "pyval list"

datatype error =
    ValueError string
  | NameError string
  | TypeError string
  | IndexError string
  | AttributeError string
  | InvalidLikelihoodError string
  | DimensionMismatchError string
  | NonConvergenceError string
  | LinAlgError string

subsection \<open>Trace of collaborator calls\<close>

datatype event =
    Display string
  | ConformDataset
  | EconomicQS matrix
  | NormaliseExtreme
  | LMMFit
  | GLMMExpFamFit
  | SiteParams
  | GLMMNormalFit vec vec
  | SetScale real
  | FastScan

type_synonym 'a io = "event list \<Rightarrow> (error + 'a) \<times> event list"

definition ret :: "'a \<Rightarrow> 'a io" where
  "ret x = (\<lambda>t. (Inr x, t))"

definition raise :: "error \<Rightarrow> 'a io" where
  "raise e = (\<lambda>t. (Inl e, t))"

definition emit :: "event \<Rightarrow> unit io" where
  "emit ev = (\<lambda>t. (Inr (), t @ [ev]))"

definition lift :: "error + 'a \<Rightarrow> 'a io" where
  "lift r = (\<lambda>t. (r, t))"

definition call :: "event \<Rightarrow> error + 'a \<Rightarrow> 'a io" where
  "call ev r = (\<lambda>t. (r, t @ [ev]))"

definition andthen :: "'a io \<Rightarrow> ('a \<Rightarrow> 'b io) \<Rightarrow> 'b io" where
  "andthen m f = (\<lambda>t. case m t of (Inl e, t') \<Rightarrow> (Inl e, t') | (Inr x, t') \<Rightarrow> f x t')"

fun is_fit :: "event \<Rightarrow> bool" where
  "is_fit LMMFit = True"
| "is_fit GLMMExpFamFit = True"
| "is_fit (GLMMNormalFit _ _) = True"
| "is_fit _ = False"

fun is_qs :: "event \<Rightarrow> bool" where
  "is_qs (EconomicQS _) = True"
| "is_qs _ = False"

fun is_display :: "event \<Rightarrow> bool" where
  "is_display (Display _) = True"
| "is_display _ = False"

definition no_fit :: "event list \<Rightarrow> bool" where
  "no_fit t = (filter is_fit t = [])"

definition qs_count :: "event list \<Rightarrow> nat" where
  "qs_count t = length (filter is_qs t)"

definition calls :: "event list \<Rightarrow> event list" where
  "calls t = filter (\<lambda>e. \<not> is_display e) t"

text \<open>
  \<open>qs_deferred seen t\<close>: every factorisation in \<open>t\<close> comes after a read of the site
  parameters (\<open>seen\<close> says whether one has already happened).
\<close>

fun qs_deferred :: "bool \<Rightarrow> event list \<Rightarrow> bool" where
  "qs_deferred seen [] = True"
| "qs_deferred seen (EconomicQS k # t) = (seen \<and> qs_deferred seen t)"
| "qs_deferred seen (SiteParams # t) = qs_deferred True t"
| "qs_deferred seen (e # t) = qs_deferred seen t"

subsection \<open>Likelihood names\<close>

text \<open>
  \<open>str.lower\<close> on the letters A to Z; every other character is kept. For membership
  in the allowed names this is all that matters: they are made of the letters a to z,
  none of which is the lower case of a character outside A to Z that occurs in them.
\<close>

definition lower_char :: "char \<Rightarrow> char" where
  "lower_char c =
     (case map_of (zip ''ABCDEFGHIJKLMNOPQRSTUVWXYZ'' ''abcdefghijklmnopqrstuvwxyz'') c of
        None \<Rightarrow> c
      | Some d \<Rightarrow> d)"

definition lower :: "string \<Rightarrow> string" where
  "lower s = map lower_char s"

text \<open>\<open>CONF["likelihoods"]\<close> of \<open>limix/_data/_conf.py\<close>.\<close>

definition CONF_likelihoods :: "string set" where
  "CONF_likelihoods = set [''normal'', ''bernoulli'', ''probit'', ''binomial'', ''poisson'']"

text \<open>
  Modelled from the spec: \<open>assert_likelihood\<close> (module \<open>limix/_data\<close>) is not among the
  sources. The spec's LikelihoodResolver "verifies membership in the fixed likelihood
  set" and fails with \<open>InvalidLikelihoodError\<close> for an unknown name. It receives the name
  alone.
\<close>

definition assert_likelihood :: "string \<Rightarrow> error + unit" where
  "assert_likelihood name =
     (if name \<in> CONF_likelihoods then Inr () else Inl (InvalidLikelihoodError name))"

text \<open>
  Lines 165 to 169 of \<open>st_scan\<close>: a value that is neither tuple nor list is wrapped into
  a one-element tuple; \<open>lik[0]\<close> raises on an empty sequence; \<open>.lower()\<close> exists on
  strings only; \<open>(lik_name,) + lik[1:]\<close> raises when \<open>lik\<close> is a list (a tuple and a list
  do not concatenate). The result is the lower-cased name and the rebuilt tuple.
\<close>

definition likelihood_tuple :: "lik_arg \<Rightarrow> error + (string \<times> pyval list)" where
  "likelihood_tuple lik =
     (let (is_list, items) =
            (case lik of
               Tuple xs \<Rightarrow> (False, xs)
             | PyList xs \<Rightarrow> (True, xs)
             | Bare v \<Rightarrow> (False, [v]))
      in case items of
           [] \<Rightarrow> Inl (IndexError ''tuple index out of range'')
         | PStr s # rest \<Rightarrow>
             if is_list then Inl (TypeError ''can only concatenate tuple to tuple'')
             else Inr (lower s, PStr (lower s) # rest)
         | _ # rest \<Rightarrow> Inl (AttributeError ''lower''))"

subsection \<open>All-finite check\<close>

text \<open>
  Modelled from the spec: \<open>is_all_finite\<close> is the external "all-finite check on arrays"
  (package \<open>numpy_sugar\<close>).
\<close>

fun isfinite :: "num \<Rightarrow> bool" where
  "isfinite (Fin _) = True"
| "isfinite _ = False"

definition is_all_finite :: "matrix \<Rightarrow> bool" where
  "is_all_finite A = list_all (list_all isfinite) A"

subsection \<open>Report builder\<close>

text \<open>
  Modelled from the spec: the result factory (module \<open>limix/qtl/_result\<close>) is not among
  the sources. Following the spec's ScanReport, the builder keeps the likelihood, the
  covariate and candidate labels, the null-model quantities in the order in which
  \<open>set_null\<close> receives them, and the tests in the order in which \<open>add_test\<close> is called;
  \<open>create\<close> returns what has been collected.
\<close>

record null_model =
  null_lml :: num
  null_beta :: vec
  null_v1 :: num
  null_v0 :: num

record test =
  test_index :: nat
  test_effsize :: num
  test_alt_lml :: num

record report =
  rep_lik :: "pyval list"
  rep_covariates :: "string list"
  rep_candidates :: "string list"
  rep_null :: "null_model option"
  rep_tests :: "test list"

definition ScanResultFactory :: "pyval list \<Rightarrow> string list \<Rightarrow> string list \<Rightarrow> report" where
  "ScanResultFactory lik covariates candidates =
     \<lparr>rep_lik = lik, rep_covariates = covariates, rep_candidates = candidates,
      rep_null = None, rep_tests = []\<rparr>"

definition set_null :: "report \<Rightarrow> num \<Rightarrow> vec \<Rightarrow> num \<Rightarrow> num \<Rightarrow> report" where
  "set_null r lml b v1 v0 =
     r\<lparr>rep_null := Some \<lparr>null_lml = lml, null_beta = b, null_v1 = v1, null_v0 = v0\<rparr>\<rparr>"

definition add_test :: "report \<Rightarrow> nat \<Rightarrow> num \<Rightarrow> num \<Rightarrow> report" where
  "add_test r i effsize alt_lml =
     r\<lparr>rep_tests := rep_tests r @
        [\<lparr>test_index = i, test_effsize = effsize, test_alt_lml = alt_lml\<rparr>]\<rparr>"

definition create :: "report \<Rightarrow> report" where
  "create r = r"

subsection \<open>Collaborators\<close>

text \<open>The conformed dataset: \<open>data["y"]\<close>, \<open>data["M"]\<close>, \<open>data["G"]\<close>, \<open>data["K"]\<close>.\<close>

record dataset =
  d_y :: data_array
  d_M :: data_array
  d_G :: data_array
  d_K :: "data_array option"

text \<open>What the code reads from a fitted \<open>LMM\<close> or \<open>GLMMNormal\<close> object.\<close>

record 'f normal_fit =
  fit_lml :: num
  fit_beta :: vec
  fit_v0 :: num
  fit_v1 :: num
  fit_scanner :: 'f

text \<open>A fitted \<open>GLMMExpFam\<close> object: its own estimates and the site parameters.\<close>

record expfam_fit =
  g_lml :: num
  g_beta :: vec
  g_v0 :: num
  g_v1 :: num
  site_eta :: vec
  site_tau :: vec

text \<open>
  The routines that are not part of \<open>_st_scan.py\<close>. \<open>'q\<close> is the type of a spectral
  decomposition, \<open>'f\<close> that of a fast scanner. Construction and \<open>fit\<close> of a model object
  are one call; the fits and \<open>fast_scan\<close> receive the \<open>verbose\<close> flag first, as the code
  passes it.
\<close>

record ('q, 'f) collaborators =
  conform_dataset ::
    "data_array \<Rightarrow> data_array option \<Rightarrow> data_array \<Rightarrow> data_array option \<Rightarrow> error + dataset"
  economic_qs :: "matrix \<Rightarrow> error + 'q"
  normalise_extreme_values :: "data_array \<Rightarrow> pyval list \<Rightarrow> error + data_array"
  lmm_fit :: "bool \<Rightarrow> matrix \<Rightarrow> matrix \<Rightarrow> 'q option \<Rightarrow> error + 'f normal_fit"
  glmm_expfam_fit ::
    "bool \<Rightarrow> vec \<Rightarrow> pyval list \<Rightarrow> matrix \<Rightarrow> 'q option \<Rightarrow> error + expfam_fit"
  glmm_normal_fit ::
    "bool \<Rightarrow> vec \<Rightarrow> vec \<Rightarrow> matrix \<Rightarrow> 'q option \<Rightarrow> error + 'f normal_fit"
  set_scale :: "real \<Rightarrow> 'f \<Rightarrow> 'f"
  scanner_null_lml :: "'f \<Rightarrow> num"
  fast_scan :: "bool \<Rightarrow> 'f \<Rightarrow> matrix \<Rightarrow> error + (vec \<times> vec)"

text \<open>
  Modelled from the spec: \<open>session_block\<close> and \<open>session_line\<close> (module \<open>limix/_display\<close>)
  are not among the sources; they are the advisory progress display, silent when
  \<open>disable\<close> is set.
\<close>

definition session_block :: "string \<Rightarrow> bool \<Rightarrow> unit io" where
  "session_block title disable = (if disable then ret () else emit (Display title))"

definition session_line :: "string \<Rightarrow> bool \<Rightarrow> unit io" where
  "session_line title disable = (if disable then ret () else emit (Display title))"

subsection \<open>The module's global names\<close>

text \<open>
  The names that the module \<open>_st_scan.py\<close> binds: its imports (lines 1 to 8) and its
  three functions. A name used in a function body that is neither local nor bound here
  (nor a builtin) raises \<open>NameError\<close> when the statement is executed.
\<close>

definition module_globals :: "string list" where
  "module_globals =
     [''sys'', ''session_line'', ''conform_dataset'', ''session_block'',
      ''assert_likelihood'', ''normalise_extreme_values'', ''ScanResultFactory'',
      ''st_scan'', ''_perform_lmm'', ''_perform_glmm'']"

definition load_global :: "string \<Rightarrow> unit io" where
  "load_global name = (if name \<in> set module_globals then ret () else raise (NameError name))"

subsection \<open>The two scanning paths\<close>

text \<open>The loop \<open>for i, data in enumerate(zip(alt_lmls, effsizes)): r.add_test(i, data[1], data[0])\<close>.\<close>

fun add_tests :: "report \<Rightarrow> (nat \<times> num \<times> num) list \<Rightarrow> report" where
  "add_tests r [] = r"
| "add_tests r ((i, d) # rest) = add_tests (add_test r i (snd d) (fst d)) rest"

text \<open>\<open>_perform_lmm\<close> (lines 210 to 230).\<close>

definition perform_lmm ::
  "('q, 'f) collaborators \<Rightarrow> report \<Rightarrow> matrix \<Rightarrow> data_array \<Rightarrow> 'q option \<Rightarrow> data_array
     \<Rightarrow> bool \<Rightarrow> report io" where
  "perform_lmm E r y M QS G verbose =
     andthen (call LMMFit (lmm_fit E verbose y (da_values M) QS)) (\<lambda>lmm.
     let null_lml = fit_lml lmm;
         beta = fit_beta lmm;
         r = set_null r null_lml beta (fit_v1 lmm) (fit_v0 lmm);
         flmm = fit_scanner lmm
     in andthen (call FastScan (fast_scan E verbose flmm (da_values G))) (\<lambda>(alt_lmls, effsizes).
        ret (create (add_tests r (enumerate 0 (zip alt_lmls effsizes))))))"

text \<open>\<open>_perform_glmm\<close> (lines 233 to 260).\<close>

definition perform_glmm ::
  "('q, 'f) collaborators \<Rightarrow> report \<Rightarrow> matrix \<Rightarrow> pyval list \<Rightarrow> data_array
     \<Rightarrow> data_array option \<Rightarrow> 'q option \<Rightarrow> data_array \<Rightarrow> bool \<Rightarrow> report io" where
  "perform_glmm E r y lik M K QS G verbose =
     andthen (call GLMMExpFamFit (glmm_expfam_fit E verbose (concat y) lik (da_values M) QS))
       (\<lambda>glmm.
     andthen (emit SiteParams) (\<lambda>_.
     let eta = site_eta glmm;
         tau = site_tau glmm
     in andthen (call (GLMMNormalFit eta tau)
                   (glmm_normal_fit E verbose eta tau (da_values M) QS)) (\<lambda>gnormal.
        let beta = fit_beta gnormal;
            flmm = fit_scanner gnormal
        in andthen (emit (SetScale 1.0)) (\<lambda>_.
           let flmm = set_scale E 1.0 flmm;
               null_lml = scanner_null_lml E flmm;
               r = set_null r null_lml beta (fit_v1 gnormal) (fit_v0 gnormal)
           in andthen (call FastScan (fast_scan E verbose flmm (da_values G)))
                (\<lambda>(alt_lmls, effsizes).
              ret (create (add_tests r (enumerate 0 (zip alt_lmls effsizes)))))))))"

subsection \<open>\<open>st_scan\<close> (lines 11 to 207)\<close>

definition st_scan ::
  "('q, 'f) collaborators \<Rightarrow> data_array \<Rightarrow> data_array \<Rightarrow> lik_arg \<Rightarrow> data_array option
     \<Rightarrow> data_array option \<Rightarrow> bool \<Rightarrow> report io" where
  "st_scan E G y lik K M verbose =
     andthen (lift (likelihood_tuple lik)) (\<lambda>(lik_name, lik).
     andthen (lift (assert_likelihood lik_name)) (\<lambda>_.
     andthen (session_block ''qtl analysis'' (\<not> verbose)) (\<lambda>_.
     andthen (session_line ''Normalising input... '' (\<not> verbose)) (\<lambda>_.
     andthen (call ConformDataset (conform_dataset E y M G K)) (\<lambda>data.
     let y = d_y data; M = d_M data; G = d_G data; K = d_K data
     in if \<not> is_all_finite (da_values y) then
          raise (ValueError ''Outcome must have finite values only.'')
        else if \<not> is_all_finite (da_values M) then
          raise (ValueError ''Covariates must have finite values only.'')
        else
          andthen
            (case K of
               Some k \<Rightarrow>
                 if \<not> is_all_finite (da_values k) then
                   raise (ValueError ''Covariate matrix must have finite values only.'')
                 else andthen (call (EconomicQS (da_values k)) (economic_qs E (da_values k)))
                        (\<lambda>qs. ret (Some qs))
             | None \<Rightarrow> ret None) (\<lambda>QS.
          andthen (call NormaliseExtreme (normalise_extreme_values E (d_y data) lik)) (\<lambda>y.
          andthen (load_global ''ST_ScanResultFactory'') (\<lambda>_.
          let r = ScanResultFactory lik (da_labels M) (da_labels G)
          in andthen
               (if lik_name = ''normal'' then perform_lmm E r (da_values y) M QS G verbose
                else perform_glmm E r (da_values y) lik M K QS G verbose) (\<lambda>r.
             andthen (if verbose then emit (Display ''report'') else ret ()) (\<lambda>_.
             ret r))))))))))"

subsection \<open>Observations on a run\<close>

text \<open>The progress lines that \<open>st_scan\<close> prints before conformance when \<open>verbose\<close> is set.\<close>

definition progress :: "bool \<Rightarrow> event list" where
  "progress verbose =
     (if verbose then [Display ''qtl analysis'', Display ''Normalising input... ''] else [])"

text \<open>The three finiteness checks of lines 182 to 190, on the conformed dataset.\<close>

definition all_finite_data :: "dataset \<Rightarrow> bool" where
  "all_finite_data d =
     (is_all_finite (da_values (d_y d)) \<and> is_all_finite (da_values (d_M d)) \<and>
      (case d_K d of None \<Rightarrow> True | Some k \<Rightarrow> is_all_finite (da_values k)))"

text \<open>The message of the first check that fails, in the order of the source.\<close>

definition nonfinite_message :: "dataset \<Rightarrow> string" where
  "nonfinite_message d =
     (if \<not> is_all_finite (da_values (d_y d)) then ''Outcome must have finite values only.''
      else if \<not> is_all_finite (da_values (d_M d)) then
        ''Covariates must have finite values only.''
      else ''Covariate matrix must have finite values only.'')"

text \<open>The call gets as far as line 191: allowed name, conformance succeeds, all finite, K present.\<close>

definition reaches_factorisation ::
  "('q, 'f) collaborators \<Rightarrow> data_array \<Rightarrow> data_array \<Rightarrow> lik_arg \<Rightarrow> data_array option
     \<Rightarrow> data_array option \<Rightarrow> bool" where
  "reaches_factorisation E G y lik K M =
     (case likelihood_tuple lik of
        Inl e \<Rightarrow> False
      | Inr (nm, lk) \<Rightarrow>
          nm \<in> CONF_likelihoods \<and>
          (case conform_dataset E y M G K of
             Inl e \<Rightarrow> False
           | Inr d \<Rightarrow> all_finite_data d \<and> d_K d \<noteq> None))"

text \<open>The values of \<open>data["K"]\<close> (empty when there is none).\<close>

definition conformed_K ::
  "('q, 'f) collaborators \<Rightarrow> data_array \<Rightarrow> data_array \<Rightarrow> data_array option
     \<Rightarrow> data_array option \<Rightarrow> matrix" where
  "conformed_K E G y K M =
     (case conform_dataset E y M G K of
        Inl e \<Rightarrow> []
      | Inr d \<Rightarrow> (case d_K d of None \<Rightarrow> [] | Some k \<Rightarrow> da_values k))"

text \<open>The tests that the loop over \<open>enumerate(zip(alt_lmls, effsizes))\<close> adds.\<close>

definition tests_of :: "(nat \<times> num \<times> num) list \<Rightarrow> test list" where
  "tests_of xs =
     map (\<lambda>(i, d). \<lparr>test_index = i, test_effsize = snd d, test_alt_lml = fst d\<rparr>) xs"

text \<open>
  The fits and the fast scan return the same whatever \<open>verbose\<close> flag they are given:
  what the external routines promise when progress display is advisory.
\<close>

definition verbose_independent :: "('q, 'f) collaborators \<Rightarrow> bool" where
  "verbose_independent E =
     (lmm_fit E True = lmm_fit E False \<and>
      glmm_expfam_fit E True = glmm_expfam_fit E False \<and>
      glmm_normal_fit E True = glmm_normal_fit E False \<and>
      fast_scan E True = fast_scan E False)"

subsection \<open>Stub collaborators and a small dataset\<close>

text \<open>
  Stub implementations of the collaborators, on which the model can be run: conformance
  keeps the arrays and synthesises the offset covariate when \<open>M\<close> is absent; the fits
  return fixed estimates (those of the exact generalised fit differ from those of the
  pseudo-model); a scanner is represented by its scale; \<open>fast_scan\<close> returns one entry
  per column.
\<close>

definition offset_covariate :: "data_array \<Rightarrow> data_array" where
  "offset_covariate y =
     \<lparr>da_values = map (\<lambda>_. [Fin 1]) (da_values y), da_labels = [''offset'']\<rparr>"

definition stub_collaborators :: "(matrix, real) collaborators" where
  "stub_collaborators =
     \<lparr>conform_dataset = (\<lambda>y M G K.
         Inr \<lparr>d_y = y, d_M = (case M of None \<Rightarrow> offset_covariate y | Some m \<Rightarrow> m),
              d_G = G, d_K = K\<rparr>),
      economic_qs = (\<lambda>k. Inr k),
      normalise_extreme_values = (\<lambda>y lik. Inr y),
      lmm_fit = (\<lambda>verbose y M QS.
         Inr \<lparr>fit_lml = Fin (-10), fit_beta = [Fin 1], fit_v0 = Fin 2, fit_v1 = Fin 3,
              fit_scanner = 5\<rparr>),
      glmm_expfam_fit = (\<lambda>verbose y lik M QS.
         Inr \<lparr>g_lml = Fin (-90), g_beta = [Fin 9], g_v0 = Fin 8, g_v1 = Fin 7,
              site_eta = y, site_tau = map (\<lambda>_. Fin 1) y\<rparr>),
      glmm_normal_fit = (\<lambda>verbose eta tau M QS.
         Inr \<lparr>fit_lml = Fin (-20), fit_beta = [Fin 4], fit_v0 = Fin 5, fit_v1 = Fin 6,
              fit_scanner = 7\<rparr>),
      set_scale = (\<lambda>s f. s),
      scanner_null_lml = (\<lambda>f. Fin (- f)),
      fast_scan = (\<lambda>verbose f G.
         case G of
           [] \<Rightarrow> Inr ([], [])
         | row # _ \<Rightarrow> Inr (map (\<lambda>_. Fin (- f)) row, map (\<lambda>_. Fin 0) row))\<rparr>"

definition y2 :: data_array where
  "y2 = \<lparr>da_values = [[Fin 1], [Fin 2]], da_labels = []\<rparr>"

definition G2 :: data_array where
  "G2 = \<lparr>da_values = [[Fin 0, Fin 1, Fin 2], [Fin 1, Fin 1, Fin 0]],
         da_labels = [''rs0'', ''rs1'', ''rs2'']\<rparr>"

definition K2 :: data_array where
  "K2 = \<lparr>da_values = [[Fin 1, Fin 0], [Fin 0, Fin 1]], da_labels = []\<rparr>"

definition K_nan :: data_array where
  "K_nan = \<lparr>da_values = [[Fin 1, NaN], [Fin 0, Fin 1]], da_labels = []\<rparr>"

definition d_nan :: dataset where
  "d_nan = \<lparr>d_y = y2, d_M = offset_covariate y2, d_G = G2, d_K = Some K_nan\<rparr>"

definition r2 :: report where
  "r2 = ScanResultFactory [PStr ''poisson''] [''offset''] [''rs0'', ''rs1'', ''rs2'']"

subsection \<open>Errors on account of the auxiliary items\<close>





section \<open>Properties\<close>

subsection \<open>Normal forms of the three functions\<close>

lemmas io_defs = ret_def raise_def emit_def lift_def call_def andthen_def
  session_block_def session_line_def load_global_def

text \<open>
  The module imports \<open>ScanResultFactory\<close> (line 8); line 197 of \<open>st_scan\<close> calls
  \<open>ST_ScanResultFactory\<close>, a name that the module does not bind.
\<close>

lemma factory_name_not_bound: "''ST_ScanResultFactory'' \<notin> set module_globals"
  by (simp add: module_globals_def)

lemma add_tests_eq: "add_tests r xs = r\<lparr>rep_tests := rep_tests r @ tests_of xs\<rparr>"
  by (induction r xs rule: add_tests.induct) (simp_all add: add_test_def tests_of_def)

lemma perform_lmm_unfold:
  "perform_lmm E r y M QS G verbose t =
     (case lmm_fit E verbose y (da_values M) QS of
        Inl e \<Rightarrow> (Inl e, t @ [LMMFit])
      | Inr lmm \<Rightarrow>
          (case fast_scan E verbose (fit_scanner lmm) (da_values G) of
             Inl e \<Rightarrow> (Inl e, t @ [LMMFit, FastScan])
           | Inr (alt_lmls, effsizes) \<Rightarrow>
               (Inr (add_tests (set_null r (fit_lml lmm) (fit_beta lmm) (fit_v1 lmm) (fit_v0 lmm))
                       (enumerate 0 (zip alt_lmls effsizes))),
                t @ [LMMFit, FastScan])))"
  by (simp add: perform_lmm_def io_defs create_def Let_def split: sum.splits prod.splits)

lemma perform_glmm_unfold:
  "perform_glmm E r y lik M K QS G verbose t =
     (case glmm_expfam_fit E verbose (concat y) lik (da_values M) QS of
        Inl e \<Rightarrow> (Inl e, t @ [GLMMExpFamFit])
      | Inr glmm \<Rightarrow>
          (case glmm_normal_fit E verbose (site_eta glmm) (site_tau glmm) (da_values M) QS of
             Inl e \<Rightarrow>
               (Inl e, t @ [GLMMExpFamFit, SiteParams,
                           GLMMNormalFit (site_eta glmm) (site_tau glmm)])
           | Inr gnormal \<Rightarrow>
               (case fast_scan E verbose (set_scale E 1 (fit_scanner gnormal)) (da_values G) of
                  Inl e \<Rightarrow>
                    (Inl e, t @ [GLMMExpFamFit, SiteParams,
                                GLMMNormalFit (site_eta glmm) (site_tau glmm), SetScale 1,
                                FastScan])
                | Inr (alt_lmls, effsizes) \<Rightarrow>
                    (Inr (add_tests
                            (set_null r (scanner_null_lml E (set_scale E 1 (fit_scanner gnormal)))
                               (fit_beta gnormal) (fit_v1 gnormal) (fit_v0 gnormal))
                            (enumerate 0 (zip alt_lmls effsizes))),
                     t @ [GLMMExpFamFit, SiteParams,
                          GLMMNormalFit (site_eta glmm) (site_tau glmm), SetScale 1,
                          FastScan]))))"
  by (simp add: perform_glmm_def io_defs create_def Let_def split: sum.splits prod.splits)

text \<open>
  Every run of \<open>st_scan\<close>: the likelihood is resolved and checked first, then the dataset
  is conformed and checked for finiteness, the covariance is factorised, the outcome is
  normalised, and the lookup of the factory name at line 197 raises.
\<close>

lemma st_scan_unfold:
  "st_scan E G y lik K M verbose t =
     (case likelihood_tuple lik of
        Inl e \<Rightarrow> (Inl e, t)
      | Inr (nm, lk) \<Rightarrow>
          if nm \<notin> CONF_likelihoods then (Inl (InvalidLikelihoodError nm), t)
          else
            let t1 = t @ progress verbose @ [ConformDataset]
            in case conform_dataset E y M G K of
                 Inl e \<Rightarrow> (Inl e, t1)
               | Inr d \<Rightarrow>
                   if \<not> is_all_finite (da_values (d_y d)) then
                     (Inl (ValueError ''Outcome must have finite values only.''), t1)
                   else if \<not> is_all_finite (da_values (d_M d)) then
                     (Inl (ValueError ''Covariates must have finite values only.''), t1)
                   else
                     (case d_K d of
                        None \<Rightarrow>
                          (case normalise_extreme_values E (d_y d) lk of
                             Inl e \<Rightarrow> (Inl e, t1 @ [NormaliseExtreme])
                           | Inr y' \<Rightarrow>
                               (Inl (NameError ''ST_ScanResultFactory''),
                                t1 @ [NormaliseExtreme]))
                      | Some k \<Rightarrow>
                          if \<not> is_all_finite (da_values k) then
                            (Inl (ValueError ''Covariate matrix must have finite values only.''),
                             t1)
                          else
                            (case economic_qs E (da_values k) of
                               Inl e \<Rightarrow> (Inl e, t1 @ [EconomicQS (da_values k)])
                             | Inr qs \<Rightarrow>
                                 (case normalise_extreme_values E (d_y d) lk of
                                    Inl e \<Rightarrow>
                                      (Inl e, t1 @ [EconomicQS (da_values k), NormaliseExtreme])
                                  | Inr y' \<Rightarrow>
                                      (Inl (NameError ''ST_ScanResultFactory''),
                                       t1 @ [EconomicQS (da_values k), NormaliseExtreme])))))"
  by (simp add: st_scan_def io_defs factory_name_not_bound assert_likelihood_def progress_def
        Let_def split: sum.splits prod.splits option.splits)

lemma st_scan_no_report: "fst (st_scan E G y lik K M verbose t) \<noteq> Inr rep"
  by (simp add: st_scan_unfold Let_def split: sum.splits prod.splits option.splits)

subsection \<open>Traces\<close>

lemma calls_Nil: "calls [] = []"
  by (simp add: calls_def)

lemma calls_Cons: "calls (e # t) = (if is_display e then calls t else e # calls t)"
  by (simp add: calls_def)

lemma calls_append: "calls (a @ b) = calls a @ calls b"
  by (simp add: calls_def)

lemma calls_progress: "calls (progress v) = []"
  by (simp add: calls_def progress_def)

lemma no_fit_progress: "filter is_fit (progress v) = []"
  by (simp add: progress_def)

lemma qs_progress: "filter is_qs (progress v) = []"
  by (simp add: progress_def)

lemma perform_lmm_no_qs: "qs_count (snd (perform_lmm E r yv Mc QS Gc verbose [])) = 0"
  by (simp add: perform_lmm_unfold qs_count_def split: sum.splits prod.splits)

lemma perform_glmm_no_qs: "qs_count (snd (perform_glmm E r yv lk Mc Kc QS Gc verbose [])) = 0"
  by (simp add: perform_glmm_unfold qs_count_def split: sum.splits prod.splits)

subsection \<open>Facts about the stub run\<close>

lemma likelihood_tuple_poisson:
  "likelihood_tuple (Bare (PStr ''poisson'')) = Inr (''poisson'', [PStr ''poisson''])"
  by (simp add: likelihood_tuple_def lower_def lower_char_def)

lemma poisson_allowed: "''poisson'' \<in> CONF_likelihoods"
  by (simp add: CONF_likelihoods_def)

subsection \<open>Non-finite input\<close>

text \<open>
  Claim C2. When the conformed outcome, covariates or covariance contain a non-finite
  value, \<open>st_scan\<close> raises before any fit: the call ends in an error, its trace holds no
  fit, and for an allowed likelihood the error is the \<open>ValueError\<close> of the first failing
  check, raised right after conformance (no factorisation, no normalisation, no fit).
\<close>

theorem st_scan_nonfinite_raises_before_fit:
  assumes "conform_dataset E y M G K = Inr d" and "\<not> all_finite_data d"
  shows "(\<exists>e. fst (st_scan E G y lik K M verbose t) = Inl e)
       \<and> no_fit (snd (st_scan E G y lik K M verbose []))
       \<and> (\<forall>nm lk. likelihood_tuple lik = Inr (nm, lk) \<and> nm \<in> CONF_likelihoods \<longrightarrow>
            st_scan E G y lik K M verbose t =
              (Inl (ValueError (nonfinite_message d)), t @ progress verbose @ [ConformDataset]))"
proof (intro conjI allI impI)
  show "\<exists>e. fst (st_scan E G y lik K M verbose t) = Inl e"
    using assms
    by (auto simp add: st_scan_unfold all_finite_data_def Let_def
             split: sum.splits option.splits)
next
  show "no_fit (snd (st_scan E G y lik K M verbose []))"
    using assms
    by (auto simp add: st_scan_unfold no_fit_def no_fit_progress all_finite_data_def Let_def
             split: sum.splits option.splits)
next
  fix nm lk
  assume "likelihood_tuple lik = Inr (nm, lk) \<and> nm \<in> CONF_likelihoods"
  then show "st_scan E G y lik K M verbose t =
      (Inl (ValueError (nonfinite_message d)), t @ progress verbose @ [ConformDataset])"
    using assms
    by (auto simp add: st_scan_unfold all_finite_data_def nonfinite_message_def Let_def
             split: option.splits)
qed

theorem st_scan_nonfinite_raises_before_fit_witness:
  "conform_dataset stub_collaborators y2 None G2 (Some K_nan) = Inr d_nan
   \<and> \<not> all_finite_data d_nan
   \<and> st_scan stub_collaborators G2 y2 (Bare (PStr ''poisson'')) (Some K_nan) None True [] =
       (Inl (ValueError ''Covariate matrix must have finite values only.''),
        [Display ''qtl analysis'', Display ''Normalising input... '', ConformDataset])
   \<and> no_fit (snd (st_scan stub_collaborators G2 y2 (Bare (PStr ''poisson'')) (Some K_nan) None
                     True []))"
proof -
  have c: "conform_dataset stub_collaborators y2 None G2 (Some K_nan) = Inr d_nan"
    by (simp add: stub_collaborators_def d_nan_def)
  have nf: "\<not> all_finite_data d_nan"
    by (simp add: all_finite_data_def d_nan_def K_nan_def is_all_finite_def)
  have msg: "nonfinite_message d_nan = ''Covariate matrix must have finite values only.''"
    by (simp add: nonfinite_message_def d_nan_def y2_def offset_covariate_def is_all_finite_def)
  show ?thesis
    using st_scan_nonfinite_raises_before_fit [OF c nf, of "Bare (PStr ''poisson'')" True "[]"]
      c nf likelihood_tuple_poisson poisson_allowed
    by (simp add: msg progress_def no_fit_def)
qed

subsection \<open>Spectral factorisation\<close>

text \<open>
  Claim C4, as stated: on the non-Normal path the factorisation is deferred until after
  the derivation of the site parameters. It is not: with a Poisson likelihood and a
  covariance matrix, the factorisation is in the trace and no site parameters precede it.
\<close>

theorem qs_not_deferred_counterexample:
  "\<not> qs_deferred False
       (snd (st_scan stub_collaborators G2 y2 (Bare (PStr ''poisson'')) (Some K2) None False []))"
  by (simp add: st_scan_unfold likelihood_tuple_poisson poisson_allowed progress_def
        stub_collaborators_def y2_def K2_def offset_covariate_def is_all_finite_def)

text \<open>
  Claim C4, amended. A call of \<open>st_scan\<close> factorises at most once, and eagerly: exactly
  once when the likelihood name is allowed, conformance succeeds, outcome, covariates and
  covariance are finite and the conformed covariance is present; zero times otherwise (in
  particular without covariance). That one factorisation is the first collaborator call
  after conformance, whatever the likelihood. \<open>_perform_lmm\<close> and \<open>_perform_glmm\<close> receive
  the decomposition as an argument and never factorise.
\<close>

theorem st_scan_factorises_once_eagerly:
  "qs_count (snd (st_scan E G y lik K M verbose [])) =
     (if reaches_factorisation E G y lik K M then 1 else 0)
   \<and> (reaches_factorisation E G y lik K M \<longrightarrow>
        take 2 (calls (snd (st_scan E G y lik K M verbose []))) =
          [ConformDataset, EconomicQS (conformed_K E G y K M)])
   \<and> qs_count (snd (perform_lmm E r yv Mc QS Gc verbose [])) = 0
   \<and> qs_count (snd (perform_glmm E r yv lk Mc Kc QS Gc verbose [])) = 0"
proof (intro conjI impI)
  show "qs_count (snd (st_scan E G y lik K M verbose [])) =
     (if reaches_factorisation E G y lik K M then 1 else 0)"
    by (auto simp add: st_scan_unfold reaches_factorisation_def qs_count_def
        qs_progress all_finite_data_def Let_def split: sum.splits option.splits)
next
  assume "reaches_factorisation E G y lik K M"
  then show "take 2 (calls (snd (st_scan E G y lik K M verbose []))) =
          [ConformDataset, EconomicQS (conformed_K E G y K M)]"
    by (auto simp add: st_scan_unfold reaches_factorisation_def conformed_K_def
        calls_append calls_progress calls_Cons calls_Nil all_finite_data_def Let_def
        split: sum.splits option.splits)
next
  show "qs_count (snd (perform_lmm E r yv Mc QS Gc verbose [])) = 0"
    by (rule perform_lmm_no_qs)
next
  show "qs_count (snd (perform_glmm E r yv lk Mc Kc QS Gc verbose [])) = 0"
    by (rule perform_glmm_no_qs)
qed

theorem st_scan_factorises_once_eagerly_witness:
  "reaches_factorisation stub_collaborators G2 y2 (Bare (PStr ''poisson'')) (Some K2) None
   \<and> qs_count (snd (st_scan stub_collaborators G2 y2 (Bare (PStr ''poisson'')) (Some K2) None
                      False [])) = 1
   \<and> take 2 (calls (snd (st_scan stub_collaborators G2 y2 (Bare (PStr ''poisson'')) (Some K2)
                            None False []))) =
       [ConformDataset, EconomicQS [[Fin 1, Fin 0], [Fin 0, Fin 1]]]"
proof -
  have r: "reaches_factorisation stub_collaborators G2 y2 (Bare (PStr ''poisson'')) (Some K2) None"
    by (simp add: reaches_factorisation_def likelihood_tuple_poisson poisson_allowed
          stub_collaborators_def all_finite_data_def is_all_finite_def y2_def K2_def
          offset_covariate_def)
  have k: "conformed_K stub_collaborators G2 y2 (Some K2) None = [[Fin 1, Fin 0], [Fin 0, Fin 1]]"
    by (simp add: conformed_K_def stub_collaborators_def K2_def)
  show ?thesis
    using st_scan_factorises_once_eagerly
      [of stub_collaborators G2 y2 "Bare (PStr ''poisson'')" "Some K2" None False] r k
    by simp
qed

subsection \<open>Null model of the non-Normal path\<close>

lemma perform_glmm_report_only_after_fits:
  assumes "perform_glmm E r y lik M K QS G verbose t = (Inr rep, t')"
  shows "\<exists>glmm gnormal scans.
           glmm_expfam_fit E verbose (concat y) lik (da_values M) QS = Inr glmm
         \<and> glmm_normal_fit E verbose (site_eta glmm) (site_tau glmm) (da_values M) QS
             = Inr gnormal
         \<and> fast_scan E verbose (set_scale E 1 (fit_scanner gnormal)) (da_values G) = Inr scans"
  using assms
  by (auto simp add: perform_glmm_unfold split: sum.splits prod.splits)

text \<open>
  Claim C10. When the exact generalised fit, the Normal pseudo-model fit on its site
  parameters and the fast scan succeed, \<open>_perform_glmm\<close> returns a report whose null
  model holds the log marginal likelihood of the pseudo-model's scanner at scale 1.0 and
  the coefficients and variance components of the pseudo-model; nothing is taken from
  the estimates of the exact generalised fit. (The lemma above is the converse: a report
  is returned only after the three calls have succeeded.)
\<close>

theorem perform_glmm_null_from_pseudo_model:
  assumes "glmm_expfam_fit E verbose (concat y) lik (da_values M) QS = Inr glmm"
    and "glmm_normal_fit E verbose (site_eta glmm) (site_tau glmm) (da_values M) QS = Inr gnormal"
    and "fast_scan E verbose (set_scale E 1 (fit_scanner gnormal)) (da_values G) = Inr scans"
  shows "\<exists>rep. perform_glmm E r y lik M K QS G verbose t =
           (Inr rep, t @ [GLMMExpFamFit, SiteParams,
                          GLMMNormalFit (site_eta glmm) (site_tau glmm), SetScale 1, FastScan])
         \<and> rep_null rep =
             Some \<lparr>null_lml = scanner_null_lml E (set_scale E 1 (fit_scanner gnormal)),
                   null_beta = fit_beta gnormal,
                   null_v1 = fit_v1 gnormal,
                   null_v0 = fit_v0 gnormal\<rparr>"
  using assms
  by (cases scans) (simp add: perform_glmm_unfold add_tests_eq set_null_def)

theorem perform_glmm_null_from_pseudo_model_witness:
  "\<exists>rep. perform_glmm stub_collaborators r2 (da_values y2) [PStr ''poisson'']
            (offset_covariate y2) (Some K2) (Some (da_values K2)) G2 False [] =
           (Inr rep, [GLMMExpFamFit, SiteParams, GLMMNormalFit [Fin 1, Fin 2] [Fin 1, Fin 1],
                      SetScale 1, FastScan])
         \<and> rep_null rep =
             Some \<lparr>null_lml = Fin (- 1), null_beta = [Fin 4], null_v1 = Fin 6, null_v0 = Fin 5\<rparr>"
  using perform_glmm_null_from_pseudo_model
    [of stub_collaborators False "da_values y2" "[PStr ''poisson'']" "offset_covariate y2"
        "Some (da_values K2)"
        "\<lparr>g_lml = Fin (-90), g_beta = [Fin 9], g_v0 = Fin 8, g_v1 = Fin 7,
          site_eta = [Fin 1, Fin 2], site_tau = [Fin 1, Fin 1]\<rparr>"
        "\<lparr>fit_lml = Fin (-20), fit_beta = [Fin 4], fit_v0 = Fin 5, fit_v1 = Fin 6,
          fit_scanner = 7\<rparr>"
        G2 "([Fin (-1), Fin (-1), Fin (-1)], [Fin 0, Fin 0, Fin 0])" r2 "Some K2" "[]"]
  by (simp add: stub_collaborators_def y2_def G2_def)

subsection \<open>Likelihood resolution\<close>


lemma lower_Normal: "lower ''Normal'' = ''normal''"
  by (simp add: lower_def lower_char_def)




text \<open>
  Claim C9. A bare name and the one-element tuple holding it are the same likelihood
  after line 166, and \<open>st_scan\<close> returns the same result and leaves the same trace for
  both.
\<close>

theorem st_scan_bare_name_is_singleton_tuple:
  "likelihood_tuple (Bare (PStr s)) = likelihood_tuple (Tuple [PStr s])
   \<and> st_scan E G y (Bare (PStr s)) K M verbose t = st_scan E G y (Tuple [PStr s]) K M verbose t"
  by (simp add: st_scan_def likelihood_tuple_def)

text \<open>
  Claim C6. The name is lower-cased before it is checked; \<open>st_scan\<close> goes on to dataset
  conformance exactly when the lower-cased name is one of normal, bernoulli, probit,
  binomial, poisson; for any other name the call fails with the likelihood error and
  nothing has been called: no conformance, no factorisation, no fit.
\<close>

theorem st_scan_proceeds_iff_name_allowed:
  "likelihood_tuple (Tuple (PStr s # aux)) = Inr (lower s, PStr (lower s) # aux)
   \<and> likelihood_tuple (Bare (PStr s)) = Inr (lower s, [PStr (lower s)])
   \<and> (ConformDataset \<in> set (snd (st_scan E G y (Tuple (PStr s # aux)) K M verbose []))) =
       (lower s \<in> {''normal'', ''bernoulli'', ''probit'', ''binomial'', ''poisson''})
   \<and> (lower s \<notin> {''normal'', ''bernoulli'', ''probit'', ''binomial'', ''poisson''} \<longrightarrow>
        st_scan E G y (Tuple (PStr s # aux)) K M verbose t =
          (Inl (InvalidLikelihoodError (lower s)), t))"
  by (auto simp add: st_scan_unfold likelihood_tuple_def CONF_likelihoods_def Let_def
           split: sum.splits option.splits)

theorem st_scan_proceeds_iff_name_allowed_witness:
  "lower ''Gamma'' \<notin> {''normal'', ''bernoulli'', ''probit'', ''binomial'', ''poisson''}
   \<and> st_scan stub_collaborators G2 y2 (Tuple [PStr ''Gamma'']) None None True [] =
       (Inl (InvalidLikelihoodError ''gamma''), [])
   \<and> ConformDataset \<notin>
       set (snd (st_scan stub_collaborators G2 y2 (Tuple [PStr ''Gamma'']) None None True []))"
proof -
  have l: "lower ''Gamma'' = ''gamma''"
    by (simp add: lower_def lower_char_def)
  show ?thesis
    using st_scan_proceeds_iff_name_allowed
      [of "''Gamma''" "[]" stub_collaborators G2 y2 None None True "[]"]
    by (simp add: l)
qed




subsection \<open>Verbosity\<close>

text \<open>
  Claim C7. The result of \<open>st_scan\<close> and the collaborator calls it makes are the same
  with and without \<open>verbose\<close>; and when the external fits and the fast scan do not let
  the flag change what they return, \<open>_perform_lmm\<close> and \<open>_perform_glmm\<close> return the same
  report (null and alternative log marginal likelihoods, effect sizes, coefficients and
  variance components) and make the same calls for both values of the flag.
\<close>

theorem verbose_is_advisory:
  assumes "verbose_independent E"
  shows "fst (st_scan E G y lik K M True t) = fst (st_scan E G y lik K M False t)
       \<and> calls (snd (st_scan E G y lik K M True [])) = calls (snd (st_scan E G y lik K M False []))
       \<and> perform_lmm E r yv Mc QS Gc True t = perform_lmm E r yv Mc QS Gc False t
       \<and> perform_glmm E r yv lk Mc Kc QS Gc True t = perform_glmm E r yv lk Mc Kc QS Gc False t"
proof (intro conjI)
  show "fst (st_scan E G y lik K M True t) = fst (st_scan E G y lik K M False t)"
    by (simp add: st_scan_unfold Let_def split: sum.splits option.splits prod.splits)
next
  show "calls (snd (st_scan E G y lik K M True [])) = calls (snd (st_scan E G y lik K M False []))"
    by (simp add: st_scan_unfold Let_def calls_append calls_progress
             split: sum.splits option.splits prod.splits)
next
  show "perform_lmm E r yv Mc QS Gc True t = perform_lmm E r yv Mc QS Gc False t"
    using assms by (simp add: perform_lmm_unfold verbose_independent_def split: sum.splits)
next
  show "perform_glmm E r yv lk Mc Kc QS Gc True t = perform_glmm E r yv lk Mc Kc QS Gc False t"
    using assms by (simp add: perform_glmm_unfold verbose_independent_def split: sum.splits)
qed

theorem verbose_is_advisory_witness:
  "verbose_independent stub_collaborators
   \<and> perform_lmm stub_collaborators r2 (da_values y2) (offset_covariate y2) None G2 True [] =
       perform_lmm stub_collaborators r2 (da_values y2) (offset_covariate y2) None G2 False []
   \<and> fst (perform_lmm stub_collaborators r2 (da_values y2) (offset_covariate y2) None G2 False [])
       = Inr (r2\<lparr>rep_null := Some \<lparr>null_lml = Fin (- 10), null_beta = [Fin 1], null_v1 = Fin 3,
                                    null_v0 = Fin 2\<rparr>,
                 rep_tests :=
                   [\<lparr>test_index = 0, test_effsize = Fin 0, test_alt_lml = Fin (- 5)\<rparr>,
                    \<lparr>test_index = 1, test_effsize = Fin 0, test_alt_lml = Fin (- 5)\<rparr>,
                    \<lparr>test_index = 2, test_effsize = Fin 0, test_alt_lml = Fin (- 5)\<rparr>]\<rparr>)
   \<and> fst (st_scan stub_collaborators G2 y2 (Bare (PStr ''poisson'')) (Some K2) None True []) =
       fst (st_scan stub_collaborators G2 y2 (Bare (PStr ''poisson'')) (Some K2) None False [])"
proof -
  have v: "verbose_independent stub_collaborators"
    by (simp add: verbose_independent_def stub_collaborators_def)
  have e: "fst (perform_lmm stub_collaborators r2 (da_values y2) (offset_covariate y2) None G2
                  False [])
       = Inr (r2\<lparr>rep_null := Some \<lparr>null_lml = Fin (- 10), null_beta = [Fin 1], null_v1 = Fin 3,
                                    null_v0 = Fin 2\<rparr>,
                 rep_tests :=
                   [\<lparr>test_index = 0, test_effsize = Fin 0, test_alt_lml = Fin (- 5)\<rparr>,
                    \<lparr>test_index = 1, test_effsize = Fin 0, test_alt_lml = Fin (- 5)\<rparr>,
                    \<lparr>test_index = 2, test_effsize = Fin 0, test_alt_lml = Fin (- 5)\<rparr>]\<rparr>)"
    by (simp add: perform_lmm_unfold stub_collaborators_def G2_def add_tests_eq tests_of_def
          set_null_def r2_def ScanResultFactory_def enumerate_eq_zip upt_rec)
  show ?thesis
    using verbose_is_advisory [OF v, of G2 y2 "Bare (PStr ''poisson'')" "Some K2" None "[]" r2
        "da_values y2" "offset_covariate y2" None G2] v e
    by simp
qed

subsection \<open>The report and the dispatch\<close>

lemma tests_of_fields:
  "map test_index (tests_of ys) = map fst ys
   \<and> map test_alt_lml (tests_of ys) = map fst (map snd ys)
   \<and> map test_effsize (tests_of ys) = map snd (map snd ys)"
  by (simp add: tests_of_def case_prod_unfold comp_def)

lemma tests_of_enumerate:
  "map test_index (tests_of (enumerate n xs)) = [n..<n + length xs]
   \<and> map test_alt_lml (tests_of (enumerate n xs)) = map fst xs
   \<and> map test_effsize (tests_of (enumerate n xs)) = map snd xs"
  by (simp add: tests_of_fields)

text \<open>
  Called on their own with a fresh builder, both paths return one test per pair of
  \<open>zip(alt_lmls, effsizes)\<close>, numbered from 0 in the scanner's order.
\<close>

lemma perform_lmm_tests_in_order:
  assumes "lmm_fit E verbose yv (da_values Mc) QS = Inr lmm"
    and "fast_scan E verbose (fit_scanner lmm) (da_values Gc) = Inr (alt_lmls, effsizes)"
  shows "\<exists>rep. fst (perform_lmm E (ScanResultFactory lk cov cand) yv Mc QS Gc verbose t) = Inr rep
         \<and> map test_index (rep_tests rep) = [0..<min (length alt_lmls) (length effsizes)]
         \<and> map test_alt_lml (rep_tests rep) = map fst (zip alt_lmls effsizes)
         \<and> map test_effsize (rep_tests rep) = map snd (zip alt_lmls effsizes)"
  using assms
  by (simp add: perform_lmm_unfold add_tests_eq set_null_def ScanResultFactory_def
        tests_of_enumerate)

lemma perform_glmm_tests_in_order:
  assumes "glmm_expfam_fit E verbose (concat yv) lk (da_values Mc) QS = Inr glmm"
    and "glmm_normal_fit E verbose (site_eta glmm) (site_tau glmm) (da_values Mc) QS = Inr gnormal"
    and "fast_scan E verbose (set_scale E 1 (fit_scanner gnormal)) (da_values Gc)
           = Inr (alt_lmls, effsizes)"
  shows "\<exists>rep. fst (perform_glmm E (ScanResultFactory lk cov cand) yv lk Mc Kc QS Gc verbose t)
                = Inr rep
         \<and> map test_index (rep_tests rep) = [0..<min (length alt_lmls) (length effsizes)]
         \<and> map test_alt_lml (rep_tests rep) = map fst (zip alt_lmls effsizes)
         \<and> map test_effsize (rep_tests rep) = map snd (zip alt_lmls effsizes)"
  using assms
  by (simp add: perform_glmm_unfold add_tests_eq set_null_def ScanResultFactory_def
        tests_of_enumerate)

text \<open>The loop only appends: the null model and the tests already added stay as they are.\<close>

lemma add_tests_keeps_null_and_earlier_tests:
  "rep_null (add_tests r xs) = rep_null r
   \<and> take (length (rep_tests r)) (rep_tests (add_tests r xs)) = rep_tests r"
  by (simp add: add_tests_eq)

lemma perform_lmm_no_site_params:
  "SiteParams \<notin> set (snd (perform_lmm E r yv Mc QS Gc verbose []))"
  by (simp add: perform_lmm_unfold split: sum.splits prod.splits)

text \<open>
  Claim C1 says that every valid call returns a complete report with one result per
  column of \<open>G\<close>. The call below is valid (two samples, three candidates, Normal
  likelihood, no covariance, finite values, collaborators that all succeed); it ends in
  \<open>NameError\<close> at line 197, after conformance and normalisation and before any fit. By
  \<open>st_scan_no_report\<close> no call of \<open>st_scan\<close> returns a report.
\<close>

theorem st_scan_normal_raises_NameError:
  "st_scan stub_collaborators G2 y2 (Bare (PStr ''Normal'')) None None False [] =
     (Inl (NameError ''ST_ScanResultFactory''), [ConformDataset, NormaliseExtreme])"
  by (simp add: st_scan_unfold likelihood_tuple_def lower_Normal CONF_likelihoods_def progress_def
        stub_collaborators_def y2_def offset_covariate_def is_all_finite_def)

text \<open>
  Claim C3 says that for an allowed name other than normal \<open>st_scan\<close> takes the
  two-stage path. The call below (Poisson likelihood, finite data, a covariance matrix)
  never reaches the dispatch of line 199: it ends in \<open>NameError\<close> at line 197, and its
  trace holds neither the exact generalised fit nor the site parameters nor the
  pseudo-model fit. (\<open>_perform_glmm\<close> itself does what the claim describes, see
  \<open>perform_glmm_unfold\<close>, and \<open>_perform_lmm\<close> never reads site parameters.)
\<close>

theorem st_scan_poisson_raises_before_dispatch:
  "st_scan stub_collaborators G2 y2 (Bare (PStr ''poisson'')) (Some K2) None False [] =
     (Inl (NameError ''ST_ScanResultFactory''),
      [ConformDataset, EconomicQS [[Fin 1, Fin 0], [Fin 0, Fin 1]], NormaliseExtreme])"
  by (simp add: st_scan_unfold likelihood_tuple_poisson poisson_allowed progress_def
        stub_collaborators_def y2_def K2_def offset_covariate_def is_all_finite_def)

end
